theory Spec2Isabelle
  imports Complex_Main
begin

section \<open>Data model (shared/types)\<close>

text \<open>
  A TypeScript \<open>number\<close> is modelled as an exact rational: the reducer only adds,
  multiplies and compares numbers, and the model reads these operations as exact
  arithmetic. The rounding of binary floating point, \<open>NaN\<close> and the infinities are outside
  the model.

  Field names that clash with constants or keywords of Isabelle carry a prime: \<open>id'\<close>, \<open>image'\<close>,
  \<open>size'\<close>, \<open>top'\<close>, \<open>notes'\<close>, \<open>type'\<close>.
\<close>

type_synonym number = rat

datatype Gender = male | female | unisex

record Notes =
  top' :: "string list"
  middle :: "string list"
  base :: "string list"

record Product =
  id' :: string
  name :: string
  brand :: string
  price :: number
  image' :: string
  description :: string
  size' :: string
  notes' :: Notes
  gender :: Gender
  rating :: number
  inStock :: bool

record CartItem =
  product :: Product
  quantity :: number

section \<open>Cart reducer (features/cart/CartContext.tsx)\<close>

datatype CartAction =
    ADD_ITEM Product
  | REMOVE_ITEM string
  | UPDATE_QUANTITY string number
  | CLEAR_CART
  | LOAD_CART "CartItem list"
  | SET_LOADING bool

record CartState =
  items :: "CartItem list"
  totalItems :: number
  totalPrice :: number
  isLoading :: bool

definition initialState :: CartState where
  "initialState = \<lparr> items = [], totalItems = 0, totalPrice = 0, isLoading = True \<rparr>"

text \<open>
  The two \<open>reduce\<close> calls that every branch of the reducer repeats:
  \<open>xs.reduce((sum, item) => sum + item.quantity, 0)\<close> and
  \<open>xs.reduce((sum, item) => sum + item.product.price * item.quantity, 0)\<close>.
  \<open>Array.prototype.reduce\<close> with an initial value is a left fold.
\<close>

definition reduceItems :: "CartItem list \<Rightarrow> number" where
  "reduceItems xs = foldl (\<lambda>sum item. sum + quantity item) 0 xs"

definition reducePrice :: "CartItem list \<Rightarrow> number" where
  "reducePrice xs = foldl (\<lambda>sum item. sum + price (product item) * quantity item) 0 xs"

text \<open>
  The reducer. \<open>UPDATE_QUANTITY\<close> with a quantity \<open>\<le> 0\<close> calls the reducer again with
  \<open>REMOVE_ITEM\<close>, as the source does. The \<open>default\<close> branch of the source's \<open>switch\<close>
  is unreachable for a value of type \<open>CartAction\<close>.
\<close>

function cartReducer :: "CartState \<Rightarrow> CartAction \<Rightarrow> CartState" where
  "cartReducer state (ADD_ITEM payload) =
     (let existingItem = find (\<lambda>item. id' (product item) = id' payload) (items state);
          newItems =
            (case existingItem of
               Some _ \<Rightarrow>
                 map (\<lambda>item. if id' (product item) = id' payload
                              then item\<lparr>quantity := quantity item + 1\<rparr>
                              else item) (items state)
             | None \<Rightarrow> items state @ [\<lparr>product = payload, quantity = 1\<rparr>])
      in state\<lparr>items := newItems,
               totalItems := reduceItems newItems,
               totalPrice := reducePrice newItems\<rparr>)"
| "cartReducer state (REMOVE_ITEM payload) =
     (let newItems = filter (\<lambda>item. id' (product item) \<noteq> payload) (items state)
      in state\<lparr>items := newItems,
               totalItems := reduceItems newItems,
               totalPrice := reducePrice newItems\<rparr>)"
| "cartReducer state (UPDATE_QUANTITY productId qty) =
     (if qty \<le> 0 then cartReducer state (REMOVE_ITEM productId)
      else
        (let newItems =
               map (\<lambda>item. if id' (product item) = productId
                            then item\<lparr>quantity := qty\<rparr>
                            else item) (items state)
         in state\<lparr>items := newItems,
                  totalItems := reduceItems newItems,
                  totalPrice := reducePrice newItems\<rparr>))"
| "cartReducer state CLEAR_CART =
     state\<lparr>items := [], totalItems := 0, totalPrice := 0\<rparr>"
| "cartReducer state (LOAD_CART payload) =
     state\<lparr>items := payload,
           totalItems := reduceItems payload,
           totalPrice := reducePrice payload,
           isLoading := False\<rparr>"
| "cartReducer state (SET_LOADING payload) = state\<lparr>isLoading := payload\<rparr>"
  by pat_completeness auto
termination
  by (relation "measure (\<lambda>(state, action). case action of UPDATE_QUANTITY _ _ \<Rightarrow> 1 | _ \<Rightarrow> 0)")
     auto

section \<open>Errors (shared/utils/errors)\<close>

datatype ErrorType =
  NETWORK | VALIDATION | NOT_FOUND | UNAUTHORIZED | FORBIDDEN | SERVER | TIMEOUT | UNKNOWN

text \<open>
  \<open>AppError\<close>: the original error, when there is one, is kept by its message.
\<close>

record AppError =
  type' :: ErrorType
  message :: string
  userMessage :: string
  originalError :: "string option"
  statusCode :: "number option"

fun ERROR_MESSAGES :: "ErrorType \<Rightarrow> string" where
  "ERROR_MESSAGES NETWORK =
     ''Unable to connect. Please check your internet connection and try again.''"
| "ERROR_MESSAGES VALIDATION = ''Please check your input and try again.''"
| "ERROR_MESSAGES NOT_FOUND = ''The requested resource was not found.''"
| "ERROR_MESSAGES UNAUTHORIZED = ''You need to be logged in to perform this action.''"
| "ERROR_MESSAGES FORBIDDEN = ''You do not have permission to perform this action.''"
| "ERROR_MESSAGES SERVER = ''Something went wrong on our end. Please try again later.''"
| "ERROR_MESSAGES TIMEOUT = ''The request took too long. Please try again.''"
| "ERROR_MESSAGES UNKNOWN = ''An unexpected error occurred. Please try again.''"

text \<open>
  \<open>message || ERROR_MESSAGES[type]\<close>: an absent and an empty message are both falsy.
\<close>

definition createError ::
  "ErrorType \<Rightarrow> string option \<Rightarrow> string option \<Rightarrow> number option \<Rightarrow> AppError" where
  "createError t msg orig code =
     (let userMsg = (case msg of
                       None \<Rightarrow> ERROR_MESSAGES t
                     | Some m \<Rightarrow> if m = [] then ERROR_MESSAGES t else m)
      in \<lparr> type' = t, message = userMsg, userMessage = userMsg,
           originalError = orig, statusCode = code \<rparr>)"

text \<open>
  The error channel is the console. \<open>logError\<close> makes one \<open>console.error\<close> call in
  either build mode; the console is the list of the errors logged so far, each with the
  context record that \<open>logError\<close> received.
\<close>

datatype ContextValue = CtxString string | CtxNumber number

type_synonym Console = "(AppError \<times> (string \<times> ContextValue) list) list"

definition logError :: "AppError \<Rightarrow> (string \<times> ContextValue) list \<Rightarrow> Console \<Rightarrow> Console" where
  "logError err ctxt out = out @ [(err, ctxt)]"

section \<open>Device storage (shared/utils/storage)\<close>

text \<open>
  Modelled from the spec: \<open>AsyncStorage\<close>, the device's key-value store, is a library
  outside the sources. The spec gives its contract as \<open>get(key)\<close> returning an optional
  serialized value and \<open>set(key, value)\<close> succeeding or failing. It is a map from keys to
  strings together with a fault that, when present, makes every call reject with that
  error.
\<close>

record AsyncStorage =
  entries :: "string \<rightharpoonup> string"
  fault :: "string option"




text \<open>
  The state of the running application: the reducer state held by the provider, the
  console, and the device storage.
\<close>

record World =
  state :: CartState
  console :: Console
  asyncStorage :: AsyncStorage




section \<open>The provider (features/cart/CartContext.tsx)\<close>

text \<open>
  \<open>dispatch\<close> of \<open>useReducer\<close> replaces the state by the reducer's result. The provider's
  two effects are functions of their own: \<open>loadCart\<close> runs once when the provider is
  mounted, \<open>saveCart\<close> is the body of the effect that runs after a state change.
\<close>

definition dispatch :: "CartAction \<Rightarrow> World \<Rightarrow> World" where
  "dispatch action w = w\<lparr>state := cartReducer (state w) action\<rparr>"



text \<open>A provider that is mounted anew starts from \<open>initialState\<close>; the device storage stays.\<close>

definition mount :: "AsyncStorage \<Rightarrow> World" where
  "mount a = \<lparr> state = initialState, console = [], asyncStorage = a \<rparr>"

definition addItem :: "Product \<Rightarrow> World \<Rightarrow> World" where
  "addItem p w =
     (if \<not> inStock p
      then w\<lparr>console :=
               logError (createError VALIDATION (Some ''Cannot add out-of-stock item'') None None)
                 [(''product'', CtxString (id' p))] (console w)\<rparr>
      else dispatch (ADD_ITEM p) w)"

definition removeItem :: "string \<Rightarrow> World \<Rightarrow> World" where
  "removeItem productId w = dispatch (REMOVE_ITEM productId) w"

definition updateQuantity :: "string \<Rightarrow> number \<Rightarrow> World \<Rightarrow> World" where
  "updateQuantity productId qty w =
     (if qty < 0
      then w\<lparr>console :=
               logError (createError VALIDATION (Some ''Quantity cannot be negative'') None None)
                 [(''productId'', CtxString productId), (''quantity'', CtxNumber qty)]
                 (console w)\<rparr>
      else dispatch (UPDATE_QUANTITY productId qty) w)"

definition clearCart :: "World \<Rightarrow> World" where
  "clearCart w = dispatch CLEAR_CART w"

definition isInCart :: "string \<Rightarrow> World \<Rightarrow> bool" where
  "isInCart productId w = list_ex (\<lambda>item. id' (product item) = productId) (items (state w))"







section \<open>Catalogue entries (data/products.ts)\<close>

definition product1 :: Product where
  "product1 =
     \<lparr> id' = ''1'', name = ''Noir Essence'', brand = ''Luxe Parfums'', price = 129.99,
       image' = ''https://images.unsplash.com/photo-1541643600914-78b084683601?w=400&h=600&fit=crop'',
       description =
         ''A sophisticated blend of dark woods and subtle spices, perfect for evening wear.'',
       size' = ''100ml'',
       notes' = \<lparr> top' = [''Bergamot'', ''Black Pepper'', ''Cardamom''],
                  middle = [''Lavender'', ''Iris'', ''Geranium''],
                  base = [''Cedarwood'', ''Vetiver'', ''Amber''] \<rparr>,
       gender = male, rating = 4.8, inStock = True \<rparr>"


definition product8 :: Product where
  "product8 =
     \<lparr> id' = ''8'', name = ''White Tea Blossom'', brand = ''Zen Garden'', price = 89.99,
       image' = ''https://images.unsplash.com/photo-1528821154947-1aa3d1b74941?w=400&h=600&fit=crop'',
       description =
         ''Delicate and serene, a calming blend of white tea and soft florals.'',
       size' = ''75ml'',
       notes' = \<lparr> top' = [''White Tea'', ''Mandarin'', ''Ginger''],
                  middle = [''Cherry Blossom'', ''Freesia'', ''White Rose''],
                  base = [''Musk'', ''Cedarwood'', ''Amber''] \<rparr>,
       gender = female, rating = 4.8, inStock = False \<rparr>"

text \<open>A device storage with no entry and no fault.\<close>

definition emptyStorage :: AsyncStorage where
  "emptyStorage = \<lparr> entries = Map.empty, fault = None \<rparr>"

section \<open>Well-formed lines\<close>



section \<open>Derived totals\<close>








section \<open>Preservation of well-formed lines\<close>









section \<open>Catalogue facts\<close>

lemma product1_fields: "id' product1 = ''1''" "price product1 = 129.99" "inStock product1"
  by (simp_all add: product1_def)


lemma product8_fields: "id' product8 = ''8''" "price product8 = 89.99" "\<not> inStock product8"
  by (simp_all add: product8_def)

lemma state_mount: "state (mount a) = initialState"
  by (simp add: mount_def)

section \<open>The lines after each operation\<close>




lemma items_updateQuantity_positive:
  "0 < q \<Longrightarrow>
   items (state (updateQuantity pid q w)) =
     map (\<lambda>item. if id' (product item) = pid then item\<lparr>quantity := q\<rparr> else item)
       (items (state w))"
  by (simp add: updateQuantity_def dispatch_def Let_def)

lemma map_unchanged_absent:
  "\<not> isInCart pid w \<Longrightarrow>
   map (\<lambda>item. if id' (product item) = pid then f item else item) (items (state w)) =
   items (state w)"
  by (simp add: isInCart_def list_ex_iff map_idI)

lemma isLoading_cartReducer:
  "case action of
     LOAD_CART payload \<Rightarrow> True
   | SET_LOADING payload \<Rightarrow> True
   | _ \<Rightarrow> isLoading (cartReducer s action) = isLoading s"
  by (cases action) (simp_all add: Let_def)

section \<open>Persistence and hydration\<close>



section \<open>The claims\<close>








text \<open>
  Claim C4. For every state and every product that is out of stock, \<open>addItem\<close> leaves the
  whole cart state (and the device storage) unchanged and logs one error of type
  \<open>VALIDATION\<close> on the console. The call returns normally: this branch of the source
  logs and returns, and neither \<open>createError\<close> nor \<open>logError\<close> throws.
\<close>

theorem addItem_out_of_stock_rejected:
  assumes "\<not> inStock p"
  shows "state (addItem p w) = state w \<and>
         asyncStorage (addItem p w) = asyncStorage w \<and>
         console (addItem p w) =
           console w @
             [(createError VALIDATION (Some ''Cannot add out-of-stock item'') None None,
               [(''product'', CtxString (id' p))])] \<and>
         type' (fst (last (console (addItem p w)))) = VALIDATION"
  using assms by (simp add: addItem_def logError_def createError_def Let_def)

theorem addItem_out_of_stock_rejected_witness:
  "\<not> inStock product8 \<and>
   state (addItem product8 (addItem product1 (mount emptyStorage))) =
     state (addItem product1 (mount emptyStorage)) \<and>
   type' (fst (last (console (addItem product8 (addItem product1 (mount emptyStorage)))))) =
     VALIDATION"
  using addItem_out_of_stock_rejected [OF product8_fields(3), of "addItem product1 (mount emptyStorage)"]
    product8_fields(3)
  by blast

text \<open>
  Claim C5. For every state and every product identifier, \<open>updateQuantity\<close> with quantity
  0 gives the same cart state (lines, \<open>totalItems\<close>, \<open>totalPrice\<close>) as \<open>removeItem\<close>: the
  lines of the old state without those of that identifier.
\<close>

theorem updateQuantity_zero_is_removeItem:
  "state (updateQuantity productId 0 w) = state (removeItem productId w) \<and>
   items (state (updateQuantity productId 0 w)) =
     filter (\<lambda>item. id' (product item) \<noteq> productId) (items (state w))"
  by (simp add: updateQuantity_def removeItem_def dispatch_def Let_def)

text \<open>
  Claim C6. For every state, identifier and quantity below 0, \<open>updateQuantity\<close> leaves the
  whole cart state (and the device storage) unchanged and logs one error of type
  \<open>VALIDATION\<close> on the console. The call returns normally: this branch of the source
  logs and returns.
\<close>

theorem updateQuantity_negative_rejected:
  assumes "q < 0"
  shows "state (updateQuantity productId q w) = state w \<and>
         asyncStorage (updateQuantity productId q w) = asyncStorage w \<and>
         console (updateQuantity productId q w) =
           console w @
             [(createError VALIDATION (Some ''Quantity cannot be negative'') None None,
               [(''productId'', CtxString productId), (''quantity'', CtxNumber q)])] \<and>
         type' (fst (last (console (updateQuantity productId q w)))) = VALIDATION"
  using assms by (simp add: updateQuantity_def logError_def createError_def Let_def)

theorem updateQuantity_negative_rejected_witness:
  "(- 1 :: number) < 0 \<and>
   state (updateQuantity ''1'' (- 1) (addItem product1 (mount emptyStorage))) =
     state (addItem product1 (mount emptyStorage)) \<and>
   type' (fst (last (console (updateQuantity ''1'' (- 1) (addItem product1 (mount emptyStorage)))))) =
     VALIDATION"
proof -
  have neg: "(- 1 :: number) < 0"
    by simp
  show ?thesis
    using neg updateQuantity_negative_rejected [OF neg, of "''1''" "addItem product1 (mount emptyStorage)"]
    by blast
qed

text \<open>
  Claim C7. For every state and every quantity \<open>q\<close> above 0: when no line carries the
  identifier, \<open>updateQuantity\<close> leaves the lines as they are; in every case it creates no
  line, sets the quantity of the line with that identifier to exactly \<open>q\<close> and leaves
  every other line as it is.
\<close>

theorem updateQuantity_sets_quantity:
  assumes "0 < q"
  shows "(\<not> isInCart productId w \<longrightarrow>
            items (state (updateQuantity productId q w)) = items (state w)) \<and>
         length (items (state (updateQuantity productId q w))) = length (items (state w)) \<and>
         (\<forall>i < length (items (state w)).
            items (state (updateQuantity productId q w)) ! i =
              (if id' (product (items (state w) ! i)) = productId
               then (items (state w) ! i)\<lparr>quantity := q\<rparr>
               else items (state w) ! i))"
  using assms by (simp add: items_updateQuantity_positive map_unchanged_absent)

theorem updateQuantity_sets_quantity_witness:
  "(0 :: number) < 5 \<and>
   \<not> isInCart ''3'' (addItem product1 (addItem product1 (mount emptyStorage))) \<and>
   items (state (updateQuantity ''3'' 5 (addItem product1 (addItem product1 (mount emptyStorage))))) =
     items (state (addItem product1 (addItem product1 (mount emptyStorage)))) \<and>
   items (state (updateQuantity ''1'' 5 (addItem product1 (addItem product1 (mount emptyStorage))))) ! 0 =
     \<lparr>product = product1, quantity = 5\<rparr>"
proof -
  let ?w = "addItem product1 (addItem product1 (mount emptyStorage))"
  have pos: "(0 :: number) < 5"
    by simp
  have lines: "items (state ?w) = [\<lparr>product = product1, quantity = 2\<rparr>]"
    by (simp add: addItem_def dispatch_def mount_def initialState_def Let_def product1_fields)
  have absent: "\<not> isInCart ''3'' ?w"
    by (simp add: isInCart_def lines product1_fields)
  note other = updateQuantity_sets_quantity [OF pos, of "''3''" ?w]
  note same = updateQuantity_sets_quantity [OF pos, of "''1''" ?w]
  from other absent have unchanged:
    "items (state (updateQuantity ''3'' 5 ?w)) = items (state ?w)"
    by blast
  from same have "\<forall>i < length (items (state ?w)).
      items (state (updateQuantity ''1'' 5 ?w)) ! i =
        (if id' (product (items (state ?w) ! i)) = ''1''
         then (items (state ?w) ! i)\<lparr>quantity := 5\<rparr>
         else items (state ?w) ! i)"
    by blast
  then have set: "items (state (updateQuantity ''1'' 5 ?w)) ! 0 = \<lparr>product = product1, quantity = 5\<rparr>"
    by (simp add: lines product1_fields)
  from pos absent unchanged set show ?thesis
    by blast
qed



text \<open>
  Claim C9. From the empty cart, with a product of identifier "1" and price 129.99 that is
  in stock: \<open>addItem\<close> gives \<open>totalItems = 1\<close> and \<open>totalPrice = 129.99\<close>; a second
  \<open>addItem\<close> gives 2 and 259.98; \<open>updateQuantity("1", 5)\<close> gives 5 and 649.95;
  \<open>removeItem("1")\<close> gives 0 and 0.
\<close>

theorem example_scenario:
  assumes "id' p = ''1''" and "price p = 129.99" and "inStock p" and "state w = initialState"
  shows "totalItems (state (addItem p w)) = 1 \<and>
         totalPrice (state (addItem p w)) = 129.99 \<and>
         totalItems (state (addItem p (addItem p w))) = 2 \<and>
         totalPrice (state (addItem p (addItem p w))) = 259.98 \<and>
         totalItems (state (updateQuantity ''1'' 5 (addItem p (addItem p w)))) = 5 \<and>
         totalPrice (state (updateQuantity ''1'' 5 (addItem p (addItem p w)))) = 649.95 \<and>
         totalItems (state (removeItem ''1'' (updateQuantity ''1'' 5 (addItem p (addItem p w))))) = 0 \<and>
         totalPrice (state (removeItem ''1'' (updateQuantity ''1'' 5 (addItem p (addItem p w))))) = 0"
  using assms
  by (simp add: addItem_def updateQuantity_def removeItem_def dispatch_def initialState_def
      Let_def reduceItems_def reducePrice_def)

theorem example_scenario_witness:
  "id' product1 = ''1'' \<and> price product1 = 129.99 \<and> inStock product1 \<and>
   state (mount emptyStorage) = initialState \<and>
   totalItems (state (addItem product1 (mount emptyStorage))) = 1 \<and>
   totalPrice (state (addItem product1 (mount emptyStorage))) = 129.99 \<and>
   totalItems (state (updateQuantity ''1'' 5
     (addItem product1 (addItem product1 (mount emptyStorage))))) = 5 \<and>
   totalPrice (state (updateQuantity ''1'' 5
     (addItem product1 (addItem product1 (mount emptyStorage))))) = 649.95"
  using example_scenario [OF product1_fields state_mount, of emptyStorage]
    product1_fields state_mount [of emptyStorage]
  by blast

text \<open>
  Claim C10. For every state, \<open>addItem\<close>, \<open>removeItem\<close>, \<open>updateQuantity\<close> and \<open>clearCart\<close>
  leave \<open>isLoading\<close> as it is, and every action of the reducer other than \<open>LOAD_CART\<close>
  and \<open>SET_LOADING\<close> does so too.
\<close>

theorem isLoading_unchanged_by_mutations:
  "isLoading (state (addItem p w)) = isLoading (state w) \<and>
   isLoading (state (removeItem productId w)) = isLoading (state w) \<and>
   isLoading (state (updateQuantity productId q w)) = isLoading (state w) \<and>
   isLoading (state (clearCart w)) = isLoading (state w) \<and>
   (case action of
      LOAD_CART payload \<Rightarrow> True
    | SET_LOADING payload \<Rightarrow> True
    | _ \<Rightarrow> isLoading (cartReducer s action) = isLoading s)"
  using isLoading_cartReducer [where action = action and s = s]
  by (simp add: addItem_def removeItem_def updateQuantity_def clearCart_def dispatch_def Let_def)

end
